theory Spec2Isabelle
  imports Complex_Main
begin

section \<open>Common conventions\<close>

text \<open>
  Python floats are modelled as real numbers: finite arithmetic is exact. Where the
  source relies on what a floating-point division by zero gives (numpy's \<open>nan\<close> and
  \<open>inf\<close>), those values are written out (type \<open>npfloat\<close> below). Every \<open>raise\<close> of
  the source, and every exception a Python operation raises on its own, is a value
  \<open>Inl e\<close> of a sum type.
\<close>

datatype error =
    ValueError
  | KeyError
  | AttributeError
  | RecursionError
  | ZeroDivisionError
  | TypeError
  | IndexError

text \<open>\<open>str.upper()\<close> on the ASCII token symbols the wallet is keyed by.\<close>

definition upper_char :: "char \<Rightarrow> char" where
  "upper_char c =
     (let n = (of_char c :: nat)
      in if 97 \<le> n \<and> n \<le> 122 then char_of (n - 32) else c)"

definition upper :: "string \<Rightarrow> string" where
  "upper s = map upper_char s"

section \<open>paper\_trader.py: the virtual wallet\<close>

text \<open>
  One entry of \<open>tx_history\<close>. The hash \<open>0xPaper{len(tx_history):08x}\<close> is kept as the
  number it prints; \<open>datetime.now().isoformat()\<close> is a parameter of the operations.
\<close>

record TxInfo =
  tx_hash :: nat
  tx_token_in :: string
  tx_token_out :: string
  tx_amount_in :: real
  tx_amount_out :: real
  tx_gas_cost :: real
  tx_timestamp :: string

record PaperWallet =
  balances :: "string \<rightharpoonup> real"
  tx_history :: "TxInfo list"

definition PaperWallet_init :: "real \<Rightarrow> real \<Rightarrow> PaperWallet" where
  "PaperWallet_init initial_eth initial_usdc =
     \<lparr> balances = [''ETH'' \<mapsto> initial_eth, ''WETH'' \<mapsto> 0, ''USDC'' \<mapsto> initial_usdc,
                    ''USDT'' \<mapsto> 0, ''DAI'' \<mapsto> 0],
       tx_history = [] \<rparr>"

text \<open>\<open>self.balances.get(key, 0)\<close>\<close>

definition balances_get :: "(string \<rightharpoonup> real) \<Rightarrow> string \<Rightarrow> real" where
  "balances_get b k = (case b k of None \<Rightarrow> 0 | Some v \<Rightarrow> v)"

definition total_usd :: "PaperWallet \<Rightarrow> real" where
  "total_usd w =
     (let eth_value = balances_get (balances w) ''ETH'' * 3000;
          weth_value = balances_get (balances w) ''WETH'' * 3000;
          usdc_value = balances_get (balances w) ''USDC'';
          usdt_value = balances_get (balances w) ''USDT'';
          dai_value = balances_get (balances w) ''DAI''
      in eth_value + weth_value + usdc_value + usdt_value + dai_value)"

definition get_balance :: "PaperWallet \<Rightarrow> string \<Rightarrow> real" where
  "get_balance w token = balances_get (balances w) (upper token)"

text \<open>
  \<open>PaperWallet.transfer\<close>. The wallet is returned beside the outcome, because an
  exception raised half-way leaves the balances already written in place.
  \<open>self.balances[k] -= x\<close> raises \<open>KeyError\<close> when \<open>k\<close> is absent.
\<close>

definition transfer ::
  "string \<Rightarrow> PaperWallet \<Rightarrow> string \<Rightarrow> string \<Rightarrow> real \<Rightarrow> real
     \<Rightarrow> PaperWallet \<times> (error + real \<times> real \<times> TxInfo)" where
  "transfer now w token_in token_out amount_in simulated_price =
     (let balance_in = get_balance w token_in
      in if amount_in > balance_in then (w, Inl ValueError)
         else
           let amount_out = amount_in * simulated_price;
               gas_cost = 1 / 100
           in case balances w (upper token_in) of
                None \<Rightarrow> (w, Inl KeyError)
              | Some b_in \<Rightarrow>
                  let b1 = (balances w)(upper token_in \<mapsto> b_in - amount_in);
                      b2 = b1(upper token_out \<mapsto> balances_get b1 (upper token_out) + amount_out);
                      tx_info = \<lparr> tx_hash = length (tx_history w),
                                  tx_token_in = token_in, tx_token_out = token_out,
                                  tx_amount_in = amount_in, tx_amount_out = amount_out,
                                  tx_gas_cost = gas_cost, tx_timestamp = now \<rparr>
                  in if upper token_in \<noteq> ''ETH'' \<and> upper token_out \<noteq> ''ETH'' then
                       (case b2 ''ETH'' of
                          None \<Rightarrow> (w\<lparr>balances := b2\<rparr>, Inl KeyError)
                        | Some e \<Rightarrow>
                            (w\<lparr>balances := b2(''ETH'' \<mapsto> e - gas_cost),
                               tx_history := tx_history w @ [tx_info]\<rparr>,
                             Inr (amount_out, gas_cost, tx_info)))
                     else
                       (w\<lparr>balances := b2, tx_history := tx_history w @ [tx_info]\<rparr>,
                        Inr (amount_out, gas_cost, tx_info)))"

text \<open>
  The price \<open>total_usd\<close> puts on one unit of a token: 3000 for ETH and WETH, 1 for the
  three stablecoins, nothing for any other key of \<open>balances\<close>.
\<close>

definition usd_rate :: "string \<Rightarrow> real" where
  "usd_rate k =
     (if k = ''ETH'' \<or> k = ''WETH'' then 3000
      else if k = ''USDC'' \<or> k = ''USDT'' \<or> k = ''DAI'' then 1
      else 0)"

section \<open>market\_data.py: what the risk manager and the trader read\<close>

text \<open>
  \<open>MarketDataProvider\<close> answers from the network. The model keeps the two answers the
  core reads: the float \<open>get_current_price\<close> returns (0 when the fetch failed) and the
  optional float \<open>get_volatility\<close> returns (\<open>None\<close> with fewer than two prices).
\<close>

record MarketData =
  get_current_price :: "string \<Rightarrow> real"
  get_volatility :: "string \<Rightarrow> real option"

text \<open>
  \<open>get_volume\<close> and \<open>get_market_cap\<close> bind \<open>price = self.get_current_price(token)\<close>,
  a float, and read an attribute of it when it is truthy: \<open>price.volume_24h\<close>,
  \<open>price.market_cap\<close>. A float has no such attribute.
\<close>

definition get_volume :: "MarketData \<Rightarrow> string \<Rightarrow> error + real" where
  "get_volume md token =
     (let price = get_current_price md token
      in if price \<noteq> 0 then Inl AttributeError else Inr 0)"

definition get_market_cap :: "MarketData \<Rightarrow> string \<Rightarrow> error + real" where
  "get_market_cap md token =
     (let price = get_current_price md token
      in if price \<noteq> 0 then Inl AttributeError else Inr 0)"

section \<open>risk.py: the risk manager\<close>

datatype RiskLevel = LOW | MEDIUM | HIGH

record RiskMetrics =
  risk_score :: real
  risk_level :: RiskLevel
  max_position_size :: real
  recommended_stop_loss :: real
  recommended_take_profit :: real
  volatility :: real
  liquidity_risk :: bool
  smart_contract_risk :: bool
  market_impact :: real

text \<open>The position dictionaries \<open>RiskManager.open_position\<close> stores, by token.\<close>

record RiskPosition =
  rp_type :: string
  rp_size :: real
  rp_entry_price :: real
  rp_stop_loss :: real
  rp_take_profit :: real
  rp_confidence :: real

record RiskManager =
  initial_portfolio_value :: real
  current_portfolio_value :: real
  daily_start_value :: real
  daily_loss_limit :: real
  max_open_positions :: nat
  max_position_percent :: real
  emergency_stop_active :: bool
  emergency_stop_reason :: "string option"
  rm_positions :: "(string \<times> RiskPosition) list"

text \<open>\<open>RISK_CONFIG\<close> of config.py, as \<open>RiskManager.__init__\<close> reads it.\<close>

definition RiskManager_init :: "real \<Rightarrow> RiskManager" where
  "RiskManager_init initial_value =
     \<lparr> initial_portfolio_value = initial_value,
       current_portfolio_value = initial_value,
       daily_start_value = initial_value,
       daily_loss_limit = 10 / 100,
       max_open_positions = 5,
       max_position_percent = 10 / 100,
       emergency_stop_active = False,
       emergency_stop_reason = None,
       rm_positions = [] \<rparr>"

text \<open>
  \<open>assess_token_risk\<close> builds its \<open>RiskMetrics\<close> with
  \<open>max_position_size=self.calculate_position_size(token, 0.5)\<close>, and
  \<open>calculate_position_size\<close> starts with \<open>risk = self.assess_token_risk(token)\<close>.
  The first argument is the number of frames left on the interpreter's stack
  (\<open>sys.getrecursionlimit()\<close> minus the depth of the caller): with none left, the
  call raises \<open>RecursionError\<close>.
\<close>

fun assess_token_risk :: "nat \<Rightarrow> RiskManager \<Rightarrow> MarketData \<Rightarrow> string \<Rightarrow> error + RiskMetrics"
  and calculate_position_size ::
    "nat \<Rightarrow> RiskManager \<Rightarrow> MarketData \<Rightarrow> string \<Rightarrow> real \<Rightarrow> real option \<Rightarrow> error + real"
where
  "assess_token_risk 0 rm md token = Inl RecursionError"
| "assess_token_risk (Suc depth) rm md token =
     (let vol = get_volatility md token
      in case get_volume md token of
           Inl e \<Rightarrow> Inl e
         | Inr volume \<Rightarrow>
            (case get_market_cap md token of
               Inl e \<Rightarrow> Inl e
             | Inr market_cap \<Rightarrow>
                 let score_v =
                       (case vol of
                          None \<Rightarrow> 0
                        | Some v \<Rightarrow>
                            if v = 0 then 0
                            else if v > 2 then 40
                            else if v > 1 then 30
                            else if v > 1 / 2 then 20
                            else 10);
                     score_l =
                       (if market_cap < 1000000 then score_v + 30
                        else if market_cap < 10000000 then score_v + 20
                        else score_v);
                     liquidity = (market_cap < 10000000);
                     score =
                       (if volume < 10000 then score_l + 20
                        else if volume < 100000 then score_l + 10
                        else score_l);
                     level =
                       (if score \<ge> 60 then HIGH
                        else if score \<ge> 30 then MEDIUM
                        else LOW)
                 in case calculate_position_size depth rm md token (1 / 2) None of
                      Inl e \<Rightarrow> Inl e
                    | Inr max_size \<Rightarrow>
                        Inr \<lparr> risk_score = score,
                              risk_level = level,
                              max_position_size = max_size,
                              recommended_stop_loss = 0,
                              recommended_take_profit = 0,
                              volatility =
                                (case vol of None \<Rightarrow> 1 / 2
                                 | Some v \<Rightarrow> if v = 0 then 1 / 2 else v),
                              liquidity_risk = liquidity,
                              smart_contract_risk = False,
                              market_impact = 1 / 1000 \<rparr>))"
| "calculate_position_size 0 rm md token confidence portfolio_value = Inl RecursionError"
| "calculate_position_size (Suc depth) rm md token confidence portfolio_value =
     (let pv = (case portfolio_value of None \<Rightarrow> current_portfolio_value rm | Some v \<Rightarrow> v)
      in case assess_token_risk depth rm md token of
           Inl e \<Rightarrow> Inl e
         | Inr risk \<Rightarrow>
             let base_size = pv * max_position_percent rm;
                 confidence_adjustment = confidence;
                 risk_adjustment =
                   (if risk_level risk = HIGH then 1 / 2
                    else if risk_level risk = MEDIUM then 3 / 4
                    else 1);
                 volatility_adjustment =
                   (if volatility risk \<noteq> 0 then
                      (if volatility risk > 1 then 1 / 2
                       else if volatility risk > 1 / 2 then 3 / 4
                       else 1)
                    else 1);
                 position_size =
                   base_size * confidence_adjustment * risk_adjustment * volatility_adjustment;
                 min_size = 100
             in Inr (if position_size < min_size then min_size else position_size))"

text \<open>The second component of what \<open>can_open_position\<close> returns, with the values its
  message prints.\<close>

datatype open_reason =
    EmergencyStopActive "string option"
  | MaxPositionsReached nat
  | DailyLossLimitReached
  | PositionSizeExceedsMax real real
  | HighRiskLowConfidence
  | PositionAllowed

definition can_open_position ::
  "nat \<Rightarrow> RiskManager \<Rightarrow> MarketData \<Rightarrow> string \<Rightarrow> real \<Rightarrow> real \<Rightarrow> error + bool \<times> open_reason" where
  "can_open_position depth rm md token position_size confidence =
     (if emergency_stop_active rm then
        Inr (False, EmergencyStopActive (emergency_stop_reason rm))
      else if length (rm_positions rm) \<ge> max_open_positions rm then
        Inr (False, MaxPositionsReached (max_open_positions rm))
      else
        let daily_pnl = current_portfolio_value rm - daily_start_value rm;
            daily_pnl_percent =
              (if daily_start_value rm > 0 then daily_pnl / daily_start_value rm else 0)
        in if daily_pnl_percent < - daily_loss_limit rm then Inr (False, DailyLossLimitReached)
           else
             let max_position_value = current_portfolio_value rm * max_position_percent rm
             in if position_size > max_position_value then
                  Inr (False, PositionSizeExceedsMax position_size max_position_value)
                else
                  case assess_token_risk depth rm md token of
                    Inl e \<Rightarrow> Inl e
                  | Inr risk_metrics \<Rightarrow>
                      if risk_level risk_metrics = HIGH \<and> confidence < 8 / 10 then
                        Inr (False, HighRiskLowConfidence)
                      else Inr (True, PositionAllowed))"

text \<open>
  \<open>calculate_stop_loss\<close>: the arithmetic that follows \<open>risk = self.assess_token_risk(token)\<close>
  is \<open>stop_price\<close>; \<open>calculate_stop_loss\<close> is the whole method.
\<close>

definition stop_price :: "RiskMetrics \<Rightarrow> real \<Rightarrow> string \<Rightarrow> real \<Rightarrow> real" where
  "stop_price risk entry_price position_type confidence =
     (let base_stop_pct = 5 / 100;
          confidence_stop_multiplier = 1 + (1 - confidence) * (1 / 2);
          base_stop_pct1 =
            (if volatility risk \<noteq> 0 \<and> volatility risk > 1 / 2
             then base_stop_pct * (volatility risk * 2) else base_stop_pct);
          max_stop_pct = 20 / 100;
          base_stop_pct2 = min base_stop_pct1 max_stop_pct
      in if position_type = ''long''
         then entry_price * (1 - base_stop_pct2 * confidence_stop_multiplier)
         else entry_price * (1 + base_stop_pct2 * confidence_stop_multiplier))"

definition calculate_stop_loss ::
  "nat \<Rightarrow> RiskManager \<Rightarrow> MarketData \<Rightarrow> string \<Rightarrow> real \<Rightarrow> string \<Rightarrow> real \<Rightarrow> error + real" where
  "calculate_stop_loss depth rm md token entry_price position_type confidence =
     (case assess_token_risk depth rm md token of
        Inl e \<Rightarrow> Inl e
      | Inr risk \<Rightarrow> Inr (stop_price risk entry_price position_type confidence))"

definition calculate_take_profit :: "string \<Rightarrow> real \<Rightarrow> string \<Rightarrow> real \<Rightarrow> real" where
  "calculate_take_profit token entry_price position_type confidence =
     (let base_tp_pct = 15 / 100;
          confidence_tp_multiplier = 1 + confidence * (1 / 2)
      in if position_type = ''long''
         then entry_price * (1 + base_tp_pct * confidence_tp_multiplier)
         else entry_price * (1 - base_tp_pct * confidence_tp_multiplier))"

section \<open>paper\_trader.py: the paper trader\<close>

text \<open>One value of the dictionary \<open>PaperTrader.positions\<close>, keyed by token.\<close>

record Position =
  pos_token :: string
  pos_type :: string
  size_usd :: real
  token_amount :: real
  pos_entry_price :: real
  entry_time :: string
  pos_stop_loss :: real
  pos_take_profit :: real
  pos_confidence :: real
  entry_tx :: TxInfo

text \<open>A closed trade: the position with the exit fields \<open>execute_sell\<close> adds.\<close>

record Trade =
  trade_position :: Position
  exit_price :: real
  exit_tx :: TxInfo
  pnl :: real
  pnl_percent :: real

record PaperTrader =
  wallet :: PaperWallet
  risk_manager :: RiskManager
  positions :: "string \<rightharpoonup> Position"
  trade_history :: "Trade list"
  start_value :: real
  highest_value :: real
  lowest_value :: real

definition PaperTrader_init :: "real \<Rightarrow> real \<Rightarrow> PaperTrader" where
  "PaperTrader_init initial_eth initial_usdc =
     (let w = PaperWallet_init initial_eth initial_usdc
      in \<lparr> wallet = w,
           risk_manager = RiskManager_init (total_usd w),
           positions = Map.empty,
           trade_history = [],
           start_value = total_usd w,
           highest_value = total_usd w,
           lowest_value = total_usd w \<rparr>)"

text \<open>
  The dictionaries \<open>execute_buy\<close> and \<open>execute_swap\<close> return. The first three have
  \<open>"success": False\<close>; \<open>CaughtError\<close> is the \<open>except Exception\<close> branch.
\<close>

datatype OrderResult =
    RiskCheckFailed open_reason
  | InvalidPrice string
  | CaughtError error
  | Bought string real real real real Position
  | Swapped string string real real real real real TxInfo

fun success :: "OrderResult \<Rightarrow> bool" where
  "success (RiskCheckFailed r) = False"
| "success (InvalidPrice t) = False"
| "success (CaughtError e) = False"
| "success (Bought t a p u g pos) = True"
| "success (Swapped ti to ai ao p_in p_out g tx) = True"

text \<open>
  \<open>execute_buy\<close>. The risk check and \<open>calculate_position_size\<close> run before the \<open>try\<close>:
  what they raise leaves the method (\<open>Inl\<close>). Inside the \<open>try\<close>, an exception becomes
  the \<open>CaughtError\<close> dictionary, with the wallet as the swap left it.
\<close>

definition execute_buy ::
  "nat \<Rightarrow> string \<Rightarrow> MarketData \<Rightarrow> PaperTrader \<Rightarrow> string \<Rightarrow> real \<Rightarrow> real
     \<Rightarrow> PaperTrader \<times> (error + OrderResult)" where
  "execute_buy depth now md t token amount_usd confidence =
     (case can_open_position depth (risk_manager t) md token amount_usd confidence of
        Inl e \<Rightarrow> (t, Inl e)
      | Inr (allowed, why) \<Rightarrow>
          if \<not> allowed then (t, Inr (RiskCheckFailed why))
          else
            let price = get_current_price md token
            in if price \<le> 0 then (t, Inr (InvalidPrice token))
               else
                 case calculate_position_size depth (risk_manager t) md token confidence None of
                   Inl e \<Rightarrow> (t, Inl e)
                 | Inr position_size \<Rightarrow>
                    (case transfer now (wallet t) ''USDC'' token amount_usd (1 / price) of
                       (w', Inl e) \<Rightarrow> (t\<lparr>wallet := w'\<rparr>, Inr (CaughtError e))
                     | (w', Inr (token_out, gas_cost, tx_info)) \<Rightarrow>
                        (case calculate_stop_loss depth (risk_manager t) md token price
                                ''long'' confidence of
                           Inl e \<Rightarrow> (t\<lparr>wallet := w'\<rparr>, Inr (CaughtError e))
                         | Inr sl \<Rightarrow>
                             let position =
                                   \<lparr> pos_token = token, pos_type = ''long'',
                                     size_usd = amount_usd, token_amount = token_out,
                                     pos_entry_price = price, entry_time = now,
                                     pos_stop_loss = sl,
                                     pos_take_profit =
                                       calculate_take_profit token price ''long'' confidence,
                                     pos_confidence = confidence, entry_tx = tx_info \<rparr>;
                                 t1 = t\<lparr>wallet := w', positions := (positions t)(token \<mapsto> position)\<rparr>;
                                 current_value = total_usd w';
                                 t2 = (if current_value > highest_value t1
                                       then t1\<lparr>highest_value := current_value\<rparr> else t1);
                                 t3 = (if current_value < lowest_value t2
                                       then t2\<lparr>lowest_value := current_value\<rparr> else t2)
                             in (t3, Inr (Bought token token_out price amount_usd gas_cost
                                            position)))))"

text \<open>
  \<open>execute_swap\<close> asks no risk check. It computes \<open>amount_out\<close> from both prices and
  then passes \<open>simulated_price=price_out\<close> to the wallet.
\<close>

definition execute_swap ::
  "string \<Rightarrow> MarketData \<Rightarrow> PaperTrader \<Rightarrow> string \<Rightarrow> string \<Rightarrow> real
     \<Rightarrow> PaperTrader \<times> (error + OrderResult)" where
  "execute_swap now md t token_in token_out amount_in =
     (let price_in = get_current_price md token_in;
          price_out = get_current_price md token_out
      in if price_out \<le> 0 then (t, Inr (InvalidPrice token_out))
         else
           case transfer now (wallet t) token_in token_out amount_in price_out of
             (w', Inl e) \<Rightarrow> (t\<lparr>wallet := w'\<rparr>, Inr (CaughtError e))
           | (w', Inr (out, gas_cost, tx_info)) \<Rightarrow>
               (t\<lparr>wallet := w'\<rparr>,
                Inr (Swapped token_in token_out amount_in out price_in price_out gas_cost
                       tx_info)))"

section \<open>auto\_paper\_trader.py: regime, tuner, strategy and ledger\<close>

text \<open>Float division: Python raises \<open>ZeroDivisionError\<close> on a zero divisor.\<close>

definition py_div :: "real \<Rightarrow> real \<Rightarrow> error + real" where
  "py_div a b = (if b = 0 then Inl ZeroDivisionError else Inr (a / b))"

definition and_then :: "error + 'a \<Rightarrow> ('a \<Rightarrow> error + 'b) \<Rightarrow> error + 'b" where
  "and_then m f = (case m of Inl e \<Rightarrow> Inl e | Inr v \<Rightarrow> f v)"

datatype regime = unknown | trending_up | trending_down | choppy

text \<open>
  The terms of the generator in \<open>detect_market_regime\<close>:
  \<open>abs(recent[i] - recent[i-1]) / recent[i-1] * 100 for i in range(1, len(recent))\<close>,
  summed from the left, so the first zero divisor raises.
\<close>

fun step_changes :: "real list \<Rightarrow> error + real list" where
  "step_changes (a # b # rest) =
     and_then (py_div \<bar>b - a\<bar> a) (\<lambda>q.
     and_then (step_changes (b # rest)) (\<lambda>qs. Inr (q * 100 # qs)))"
| "step_changes xs = Inr []"

definition detect_market_regime :: "real list \<Rightarrow> error + regime" where
  "detect_market_regime price_history =
     (if length price_history < 12 then Inr unknown
      else
        let recent = drop (length price_history - 12) price_history;
            first_price = hd recent;
            last_price = last recent
        in and_then (py_div last_price first_price) (\<lambda>ratio.
             let change_pct = (ratio - 1) * 100
             in and_then (step_changes recent) (\<lambda>steps.
                  let volatility = sum_list steps / real (length recent)
                  in if change_pct > 3 \<and> volatility < 2 then Inr trending_up
                     else if change_pct < - 3 \<and> volatility < 2 then Inr trending_down
                     else Inr choppy)))"

text \<open>\<open>learning_data['optimal_params']\<close>\<close>

record Params =
  momentum_threshold :: real
  dip_threshold :: real
  take_profit :: real
  stop_loss :: real
  position_size :: real

record Perf =
  wins :: nat
  losses :: nat
  perf_total_pnl :: real

text \<open>The keys of \<open>learning_data['strategy_performance']\<close>.\<close>

datatype strategy = momentum | dip_buying | breakout

text \<open>The messages \<open>adapt_strategy\<close> collects, with the value each one prints.\<close>

datatype adaptation =
    RaisedMomentumThreshold real
  | LoweredMomentumThreshold real
  | WidenedStopLoss real
  | IncreasedTakeProfit
  | LoweredTakeProfit

record AdaptationEntry =
  timestamp :: string
  changes :: "adaptation list"
  new_params :: Params

record LearningData =
  strategy_performance :: "strategy \<Rightarrow> Perf"
  optimal_params :: Params
  adaptation_history :: "AdaptationEntry list"

definition load_learning_data_default :: LearningData where
  "load_learning_data_default =
     \<lparr> strategy_performance = (\<lambda>s. \<lparr> wins = 0, losses = 0, perf_total_pnl = 0 \<rparr>),
       optimal_params =
         \<lparr> momentum_threshold = 2, dip_threshold = - 3, take_profit = 5,
           stop_loss = - 3, position_size = 10 / 100 \<rparr>,
       adaptation_history = [] \<rparr>"

text \<open>
  The second component of what \<open>adaptive_strategy\<close> returns: one constructor for each
  message, with the numbers it prints.
\<close>

datatype trade_reason =
    Collecting
  | Momentum real regime
  | Dip real regime
  | Breakout real
  | TakeProfit real
  | StopLoss real
  | TrailingStop real
  | Hold real regime

text \<open>\<open>'momentum' in reason.lower()\<close>: of the messages above only \<open>Momentum +...\<close> has it.\<close>

fun mentions_momentum :: "trade_reason \<Rightarrow> bool" where
  "mentions_momentum (Momentum c r) = True"
| "mentions_momentum other = False"

text \<open>The dictionaries appended to \<open>state['trades']\<close>; only a buy has a \<open>strategy\<close> key.\<close>

datatype trade =
    BuyTrade string real real real trade_reason strategy
  | SellTrade string real real real real real trade_reason

text \<open>\<open>trade.get('strategy', 'momentum')\<close>\<close>

fun trade_strategy :: "trade \<Rightarrow> strategy" where
  "trade_strategy (BuyTrade ts spent received price why s) = s"
| "trade_strategy (SellTrade ts sold received price p pp why) = momentum"

record State =
  balance_usdc :: real
  balance_matic :: real
  trades :: "trade list"
  total_pnl :: real
  win_count :: nat
  loss_count :: nat
  last_price :: real
  hourly_prices :: "real list"
  position :: "string option"
  entry_price :: "real option"
  trades_today :: nat
  daily_pnl :: real
  consecutive_losses :: nat
  best_trade :: "(real \<times> string) option"
  worst_trade :: "(real \<times> string) option"

definition load_state_default :: State where
  "load_state_default =
     \<lparr> balance_usdc = 10000, balance_matic = 0, trades = [], total_pnl = 0,
       win_count = 0, loss_count = 0, last_price = 1 / 2, hourly_prices = [],
       position = None, entry_price = None, trades_today = 0, daily_pnl = 0,
       consecutive_losses = 0, best_trade = None, worst_trade = None \<rparr>"

text \<open>
  \<open>adapt_strategy\<close> mutates \<open>params\<close> (inside \<open>learning_data\<close>) and \<open>state\<close>; the model
  returns the list of adaptations with both. \<open>now\<close> is \<open>datetime.now().isoformat()\<close>.
\<close>

definition adapt_strategy ::
  "string \<Rightarrow> LearningData \<Rightarrow> State \<Rightarrow> error + adaptation list \<times> LearningData \<times> State" where
  "adapt_strategy now learning_data state =
     (let params = optimal_params learning_data;
          momentum_perf = strategy_performance learning_data momentum;
          total_momentum = wins momentum_perf + losses momentum_perf;
          (params1, adaptations1) =
            (if total_momentum \<ge> 5 then
               (let win_rate = real (wins momentum_perf) / real total_momentum
                in if win_rate < 4 / 10 then
                     (let p = params\<lparr>momentum_threshold :=
                                       min (momentum_threshold params + 1 / 2) 5\<rparr>
                      in (p, [RaisedMomentumThreshold (momentum_threshold p)]))
                   else if win_rate > 6 / 10 then
                     (let p = params\<lparr>momentum_threshold :=
                                       max (momentum_threshold params - 3 / 10) 1\<rparr>
                      in (p, [LoweredMomentumThreshold (momentum_threshold p)]))
                   else (params, []))
             else (params, []));
          (params2, adaptations2, state2) =
            (if consecutive_losses state \<ge> 3 then
               (let old_sl = stop_loss params1
                in (params1\<lparr>stop_loss := - 4\<rparr>,
                    adaptations1 @ [WidenedStopLoss old_sl],
                    state\<lparr>consecutive_losses := 0\<rparr>))
             else (params1, adaptations1, state))
      in and_then (detect_market_regime (hourly_prices state2)) (\<lambda>regime.
           let (params3, adaptations3) =
                 (if regime = trending_up then
                    (params2\<lparr>take_profit := 7\<rparr>, adaptations2 @ [IncreasedTakeProfit])
                  else if regime = choppy then
                    (params2\<lparr>take_profit := 3\<rparr>, adaptations2 @ [LoweredTakeProfit])
                  else (params2, adaptations2));
               learning1 = learning_data\<lparr>optimal_params := params3\<rparr>;
               learning2 =
                 (if adaptations3 \<noteq> [] then
                    learning1\<lparr>adaptation_history := adaptation_history learning1 @
                       [\<lparr> timestamp = now, changes = adaptations3, new_params = params3 \<rparr>]\<rparr>
                  else learning1)
           in Inr (adaptations3, learning2, state2)))"

text \<open>
  \<open>adaptive_strategy\<close>: the signal is \<open>"BUY"\<close>, \<open>"SELL"\<close> or \<open>None\<close>.
  \<open>state['entry_price']\<close> holding \<open>None\<close> makes the division a \<open>TypeError\<close>.
\<close>

definition adaptive_strategy ::
  "State \<Rightarrow> real \<Rightarrow> LearningData \<Rightarrow> error + string option \<times> trade_reason" where
  "adaptive_strategy state current_price learning_data =
     (let params = optimal_params learning_data;
          hp = hourly_prices state
      in if length hp < 2 then Inr (None, Collecting)
         else
           and_then (py_div current_price (hp ! (length hp - 2))) (\<lambda>r5.
           let price_change_5m = (r5 - 1) * 100
           in and_then (if length hp \<ge> 12
                        then and_then (py_div current_price (hp ! 0)) (\<lambda>r. Inr ((r - 1) * 100))
                        else Inr 0) (\<lambda>price_change_1h.
              and_then (detect_market_regime hp) (\<lambda>regime.
                if position state = None then
                  (if price_change_5m \<ge> momentum_threshold params then
                     Inr (Some ''BUY'', Momentum price_change_5m regime)
                   else if price_change_5m \<le> dip_threshold params then
                     Inr (Some ''BUY'', Dip \<bar>price_change_5m\<bar> regime)
                   else if regime = trending_up \<and> price_change_1h > 5 then
                     Inr (Some ''BUY'', Breakout price_change_1h)
                   else Inr (None, Hold price_change_5m regime))
                else if position state = Some ''LONG'' then
                  (case entry_price state of
                     None \<Rightarrow> Inl TypeError
                   | Some entry \<Rightarrow>
                       and_then (py_div current_price entry) (\<lambda>r.
                         let pnl_pct = (r - 1) * 100
                         in if pnl_pct \<ge> take_profit params then
                              Inr (Some ''SELL'', TakeProfit pnl_pct)
                            else if pnl_pct \<le> stop_loss params then
                              Inr (Some ''SELL'', StopLoss pnl_pct)
                            else if regime = trending_up \<and> pnl_pct > 3 then
                              Inr (Some ''SELL'', TrailingStop pnl_pct)
                            else Inr (None, Hold price_change_5m regime)))
                else Inr (None, Hold price_change_5m regime)))))"

text \<open>
  \<open>execute_trade\<close> returns whether it traded; the model returns the state and the
  learning data it mutates as well. \<open>state['trades'][-1]\<close> on an empty list is an
  \<open>IndexError\<close>.
\<close>

definition record_outcome :: "LearningData \<Rightarrow> strategy \<Rightarrow> bool \<Rightarrow> real \<Rightarrow> LearningData" where
  "record_outcome learning_data s won p =
     (let perf = strategy_performance learning_data s;
          perf' = (if won then perf\<lparr>wins := wins perf + 1\<rparr>
                   else perf\<lparr>losses := losses perf + 1\<rparr>)
                  \<lparr>perf_total_pnl := perf_total_pnl perf + p\<rparr>
      in learning_data\<lparr>strategy_performance :=
                         (strategy_performance learning_data)(s := perf')\<rparr>)"

definition execute_trade ::
  "string \<Rightarrow> State \<Rightarrow> string \<Rightarrow> real \<Rightarrow> trade_reason \<Rightarrow> LearningData
     \<Rightarrow> error + bool \<times> State \<times> LearningData" where
  "execute_trade now state signal current_price why learning_data =
     (let params = optimal_params learning_data
      in if signal = ''BUY'' \<and> balance_usdc state \<ge> 100 then
           (let trade_amount = min (balance_usdc state * position_size params) 1000
            in and_then (py_div trade_amount current_price) (\<lambda>matic_received.
                 let t = BuyTrade now trade_amount matic_received current_price why
                           (if mentions_momentum why then momentum else dip_buying)
                 in Inr (True,
                         state\<lparr>balance_usdc := balance_usdc state - trade_amount,
                               balance_matic := balance_matic state + matic_received,
                               position := Some ''LONG'',
                               entry_price := Some current_price,
                               trades := trades state @ [t],
                               trades_today := trades_today state + 1\<rparr>,
                         learning_data)))
         else if signal = ''SELL'' \<and> balance_matic state > 0 then
           (let matic_sold = balance_matic state;
                usdc_received = matic_sold * current_price
            in case entry_price state of
                 None \<Rightarrow> Inl TypeError
               | Some entry \<Rightarrow>
                   let p = (current_price - entry) * matic_sold
                   in and_then (py_div current_price entry) (\<lambda>r.
                        let p_pct = (r - 1) * 100;
                            state1 = state\<lparr>balance_usdc := balance_usdc state + usdc_received,
                                           balance_matic := 0,
                                           position := None,
                                           total_pnl := total_pnl state + p,
                                           daily_pnl := daily_pnl state + p\<rparr>
                        in if trades state1 = [] then Inl IndexError
                           else
                             let s = trade_strategy (last (trades state1));
                                 state2 =
                                   (if p > 0
                                    then state1\<lparr>win_count := win_count state1 + 1,
                                                consecutive_losses := 0\<rparr>
                                    else state1\<lparr>loss_count := loss_count state1 + 1,
                                                consecutive_losses :=
                                                  consecutive_losses state1 + 1\<rparr>);
                                 learning1 = record_outcome learning_data s (p > 0) p;
                                 state3 =
                                   (case best_trade state2 of
                                      None \<Rightarrow> state2\<lparr>best_trade := Some (p, now)\<rparr>
                                    | Some (bp, bt) \<Rightarrow>
                                        if p > bp then state2\<lparr>best_trade := Some (p, now)\<rparr>
                                        else state2);
                                 state4 =
                                   (case worst_trade state3 of
                                      None \<Rightarrow> state3\<lparr>worst_trade := Some (p, now)\<rparr>
                                    | Some (wp, wt) \<Rightarrow>
                                        if p < wp then state3\<lparr>worst_trade := Some (p, now)\<rparr>
                                        else state3);
                                 t = SellTrade now matic_sold usdc_received current_price p
                                       p_pct why
                             in Inr (True, state4\<lparr>trades := trades state4 @ [t]\<rparr>,
                                     learning1)))
         else Inr (False, state, learning_data))"

section \<open>strategies.py: signals, mean reversion, consensus\<close>

text \<open>
  What numpy's float division returns: a finite quotient, or, on a zero divisor,
  \<open>inf\<close>, \<open>-inf\<close> or \<open>nan\<close> with a \<open>RuntimeWarning\<close> and no exception. A comparison
  with \<open>nan\<close> is false.
\<close>

datatype npfloat = Finite real | PosInf | NegInf | NaN

definition np_divide :: "real \<Rightarrow> real \<Rightarrow> npfloat" where
  "np_divide a b =
     (if b \<noteq> 0 then Finite (a / b)
      else if a > 0 then PosInf
      else if a < 0 then NegInf
      else NaN)"

fun np_less :: "npfloat \<Rightarrow> real \<Rightarrow> bool" where
  "np_less (Finite x) r = (x < r)"
| "np_less NegInf r = True"
| "np_less PosInf r = False"
| "np_less NaN r = False"

fun np_greater :: "npfloat \<Rightarrow> real \<Rightarrow> bool" where
  "np_greater (Finite x) r = (x > r)"
| "np_greater PosInf r = True"
| "np_greater NegInf r = False"
| "np_greater NaN r = False"

text \<open>
  The \<open>metadata\<close> dictionaries of the signals modelled here. \<open>'d\<close> is the type of what
  \<open>TradeSignal.to_dict\<close> would return.
\<close>

datatype 'd metadata =
    NoMetadata
  | InsufficientData
  | MeanReversionMeta real real npfloat
  | ConsensusMeta "'d list" nat nat nat

record 'd TradeSignal =
  signal_token :: string
  action :: string
  confidence :: real
  signal_strategy :: string
  metadata :: "'d metadata"

definition np_mean :: "real list \<Rightarrow> real" where
  "np_mean xs = sum_list xs / real (length xs)"

definition np_std :: "real list \<Rightarrow> real" where
  "np_std xs = sqrt (np_mean (map (\<lambda>x. (x - np_mean xs)\<^sup>2) xs))"

text \<open>
  \<open>MeanReversionStrategy.analyze\<close>, on the list \<open>get_recent_prices(token, period=48)\<close>
  returned. \<open>std_threshold\<close> is not a key of \<open>STRATEGIES["mean_reversion"]\<close>, so it is
  the default 2.0. No statement of the body raises: the one partial operation is the
  division, which is numpy's. \<open>min(1.0, abs(deviation) / 3)\<close> is read under
  \<open>deviation < -2\<close>, where \<open>deviation\<close> is finite or \<open>-inf\<close>; \<open>min(1.0, deviation / 3)\<close>
  under \<open>deviation > 2\<close>, where it is finite or \<open>inf\<close>.
\<close>

definition MeanReversionStrategy_analyze :: "string \<Rightarrow> real list \<Rightarrow> 'd TradeSignal" where
  "MeanReversionStrategy_analyze tok prices =
     (if length prices < 24 then
        \<lparr> signal_token = tok, action = ''hold'', confidence = 0,
          signal_strategy = ''mean_reversion'', metadata = InsufficientData \<rparr>
      else
        let mean_price = np_mean prices;
            std_price = np_std prices;
            current_price = last prices;
            deviation = np_divide (current_price - mean_price) std_price;
            std_threshold = 2;
            (act, conf) =
              (if np_less deviation (- std_threshold) then
                 (''buy'', case deviation of Finite d \<Rightarrow> min 1 (\<bar>d\<bar> / 3) | other \<Rightarrow> 1)
               else if np_greater deviation std_threshold then
                 (''sell'', case deviation of Finite d \<Rightarrow> min 1 (d / 3) | other \<Rightarrow> 1)
               else if np_less deviation (- (1 / 2)) \<and> np_greater deviation (- std_threshold) then
                 (''buy'', 3 / 10)
               else if np_greater deviation (1 / 2) \<and> np_less deviation std_threshold then
                 (''sell'', 3 / 10)
               else (''hold'', 0))
        in \<lparr> signal_token = tok, action = act, confidence = conf,
             signal_strategy = ''mean_reversion'',
             metadata = MeanReversionMeta current_price mean_price deviation \<rparr>)"

text \<open>\<open>[s.to_dict() for s in signals]\<close>: the first exception ends the comprehension.\<close>

fun to_dicts :: "('a \<Rightarrow> error + 'd) \<Rightarrow> 'a list \<Rightarrow> error + 'd list" where
  "to_dicts f [] = Inr []"
| "to_dicts f (s # rest) =
     and_then (f s) (\<lambda>d. and_then (to_dicts f rest) (\<lambda>ds. Inr (d # ds)))"

text \<open>
  \<open>StrategyManager.get_consensus_signal\<close>, on the list \<open>self.analyze(token)\<close> returned.
  The method calls \<open>s.to_dict()\<close> on every signal, and the dataclass \<open>TradeSignal\<close>
  declares no such method: \<open>to_dict\<close> is a parameter here, and
  \<open>TradeSignal_to_dict\<close> is what the attribute lookup does in the source as it is.
\<close>

definition TradeSignal_to_dict :: "'d TradeSignal \<Rightarrow> error + 'd" where
  "TradeSignal_to_dict s = Inl AttributeError"

definition get_consensus_signal ::
  "('d TradeSignal \<Rightarrow> error + 'd) \<Rightarrow> string \<Rightarrow> 'd TradeSignal list \<Rightarrow> error + 'd TradeSignal" where
  "get_consensus_signal to_dict tok signals =
     (if signals = [] then
        Inr \<lparr> signal_token = tok, action = ''hold'', confidence = 0,
              signal_strategy = ''consensus'', metadata = NoMetadata \<rparr>
      else
        let buy_count = length (filter (\<lambda>s. action s = ''buy'') signals);
            sell_count = length (filter (\<lambda>s. action s = ''sell'') signals);
            hold_count = length (filter (\<lambda>s. action s = ''hold'') signals);
            total_confidence = sum_list (map confidence signals);
            avg_confidence = total_confidence / real (length signals);
            act = (if buy_count > sell_count then ''buy''
                   else if sell_count > buy_count then ''sell''
                   else ''hold'')
        in and_then (to_dicts to_dict signals) (\<lambda>dicts.
             Inr \<lparr> signal_token = tok, action = act, confidence = avg_confidence,
                   signal_strategy = ''consensus'',
                   metadata = ConsensusMeta dicts buy_count sell_count hold_count \<rparr>))"

section \<open>Inputs of the evaluations\<close>

text \<open>The provider with the network down: every fetch failed, no price history.\<close>

definition offline_feed :: MarketData where
  "offline_feed = \<lparr> get_current_price = (\<lambda>tok. 0), get_volatility = (\<lambda>tok. None) \<rparr>"

text \<open>The provider with prices: 3000 for ETH and WETH, 1 for the stablecoins.\<close>

definition live_feed :: MarketData where
  "live_feed =
     \<lparr> get_current_price =
         (\<lambda>tok. if tok = ''ETH'' \<or> tok = ''WETH'' then 3000
                else if tok = ''USDC'' \<or> tok = ''USDT'' \<or> tok = ''DAI'' then 1
                else 0),
       get_volatility = (\<lambda>tok. Some (4 / 5)) \<rparr>"

text \<open>A trader that holds one open position, a third of a WETH bought for 1000 USDC.\<close>

definition weth_tx :: TxInfo where
  "weth_tx = \<lparr> tx_hash = 0, tx_token_in = ''USDC'', tx_token_out = ''WETH'',
               tx_amount_in = 1000, tx_amount_out = 1 / 3, tx_gas_cost = 1 / 100,
               tx_timestamp = ''t0'' \<rparr>"

definition weth_position :: Position where
  "weth_position =
     \<lparr> pos_token = ''WETH'', pos_type = ''long'', size_usd = 1000, token_amount = 1 / 3,
       pos_entry_price = 3000, entry_time = ''t0'', pos_stop_loss = 2760,
       pos_take_profit = 3675, pos_confidence = 1, entry_tx = weth_tx \<rparr>"

definition holding_weth :: PaperTrader where
  "holding_weth =
     \<lparr> wallet =
         \<lparr> balances = [''ETH'' \<mapsto> 999 / 100, ''WETH'' \<mapsto> 1 / 3, ''USDC'' \<mapsto> 9000,
                        ''USDT'' \<mapsto> 0, ''DAI'' \<mapsto> 0],
           tx_history = [weth_tx] \<rparr>,
       risk_manager = RiskManager_init 40000,
       positions = [''WETH'' \<mapsto> weth_position],
       trade_history = [],
       start_value = 40000, highest_value = 40000, lowest_value = 39970 \<rparr>"

text \<open>Twelve samples: eleven at 100, then one step of 23 percent.\<close>

definition jump_window :: "real list" where
  "jump_window = [100, 100, 100, 100, 100, 100, 100, 100, 100, 100, 100, 123]"

text \<open>
  Following the spec's words, for comparison with the source: the mean of the absolute
  step-to-step percent changes of a window, that is their sum over their number.
\<close>

definition mean_abs_step_change :: "real list \<Rightarrow> real" where
  "mean_abs_step_change window =
     (case step_changes window of
        Inl e \<Rightarrow> 0
      | Inr steps \<Rightarrow> sum_list steps / real (length steps))"

text \<open>Scenario A after its buy at 0.50.\<close>

definition scenario_a_bought :: State where
  "scenario_a_bought =
     load_state_default
       \<lparr> balance_usdc := 9000, balance_matic := 2000,
         trades := [BuyTrade ''t1'' 1000 2000 (1 / 2) (Momentum 2 unknown) momentum],
         position := Some ''LONG'', entry_price := Some (1 / 2), trades_today := 1 \<rparr>"

text \<open>The learning data after one widening, and a state with three losses in a row.\<close>

definition widened_once :: LearningData where
  "widened_once =
     load_learning_data_default
       \<lparr>optimal_params := (optimal_params load_learning_data_default)\<lparr>stop_loss := - 4\<rparr>\<rparr>"

definition three_losses :: State where
  "three_losses = load_state_default\<lparr>consecutive_losses := 3\<rparr>"

text \<open>Three signals, one buy and two holds, and a \<open>to_dict\<close> that returns.\<close>

definition plain_dict :: "unit TradeSignal \<Rightarrow> error + unit" where
  "plain_dict s = Inr ()"

definition vote :: "string \<Rightarrow> real \<Rightarrow> unit TradeSignal" where
  "vote a c = \<lparr> signal_token = ''WETH'', action = a, confidence = c,
               signal_strategy = ''strategy'', metadata = NoMetadata \<rparr>"

definition one_buy_two_holds :: "unit TradeSignal list" where
  "one_buy_two_holds = [vote ''buy'' (7 / 10), vote ''hold'' (1 / 2), vote ''hold'' (3 / 10)]"

section \<open>Shared lemmas\<close>

lemmas wallet_eval =
  transfer_def PaperWallet_init_def get_balance_def balances_get_def upper_def
  upper_char_def total_usd_def Let_def

text \<open>
  Neither method of the risk manager ever returns: each call of one reaches a call of the
  other, whatever the market data, until the stack is used up or an attribute lookup
  fails on the way.
\<close>

lemma risk_queries_raise:
  "(\<exists>e. assess_token_risk depth rm md tok = Inl e) \<and>
   (\<forall>c pv. \<exists>e. calculate_position_size depth rm md tok c pv = Inl e)"
proof (induction depth)
  case 0
  show ?case by simp
next
  case (Suc d)
  from Suc obtain e1 where a: "assess_token_risk d rm md tok = Inl e1" by blast
  from Suc obtain e2 where c: "calculate_position_size d rm md tok (1 / 2) None = Inl e2"
    by blast
  have "\<exists>e. assess_token_risk (Suc d) rm md tok = Inl e"
    by (simp add: c Let_def split: sum.splits)
  moreover have "\<exists>e. calculate_position_size (Suc d) rm md tok c pv = Inl e" for c pv
    by (simp add: a)
  ultimately show ?case by blast
qed

text \<open>With no price (the fetch failed) the exception is the \<open>RecursionError\<close>.\<close>

lemma risk_recursion:
  assumes "get_current_price md tok = 0"
  shows "assess_token_risk depth rm md tok = Inl RecursionError \<and>
         (\<forall>c pv. calculate_position_size depth rm md tok c pv = Inl RecursionError)"
proof (induction depth)
  case 0
  show ?case by simp
next
  case (Suc d)
  then have a: "assess_token_risk d rm md tok = Inl RecursionError"
    and c: "calculate_position_size d rm md tok (1 / 2) None = Inl RecursionError"
    by simp_all
  have "assess_token_risk (Suc d) rm md tok = Inl RecursionError"
    using assms by (simp add: c Let_def get_volume_def get_market_cap_def)
  moreover have "calculate_position_size (Suc d) rm md tok c pv = Inl RecursionError" for c pv
    by (simp add: a)
  ultimately show ?case by blast
qed

text \<open>
  So \<open>execute_buy\<close> opens no position on any input: it leaves the trader as it was and
  either raises or returns a dictionary without success.
\<close>

lemma execute_buy_opens_nothing:
  "fst (execute_buy depth now md t tok amount c) = t \<and>
   (case snd (execute_buy depth now md t tok amount c) of
      Inl e \<Rightarrow> True
    | Inr r \<Rightarrow> \<not> success r)"
proof -
  obtain e where a: "assess_token_risk depth (risk_manager t) md tok = Inl e"
    using risk_queries_raise by blast
  show ?thesis
    by (simp add: execute_buy_def can_open_position_def Let_def a)
qed

text \<open>
  The arithmetic of the two protective levels, for any risk metrics: were
  \<open>assess_token_risk\<close> to return, the stop would lie below the entry price and the take
  profit above it.
\<close>

lemma stop_price_below_take_profit:
  assumes "0 < e" and "0 \<le> c" and "c \<le> 1"
  shows "stop_price risk e ''long'' c < e \<and> e < calculate_take_profit tok e ''long'' c"
proof -
  define b where
    "b = min (if volatility risk \<noteq> 0 \<and> volatility risk > 1 / 2
              then (5 / 100) * (volatility risk * 2) else 5 / 100) (20 / 100 :: real)"
  define m where "m = 1 + (1 - c) * (1 / 2)"
  have b: "0 < b" by (auto simp: b_def min_def)
  have m: "1 \<le> m" using assms by (auto simp: m_def)
  have "0 < e * (b * m)" using b m assms(1) by simp
  then have "e * (1 - b * m) < e" by (simp add: right_diff_distrib)
  moreover have "stop_price risk e ''long'' c = e * (1 - b * m)"
    by (simp add: stop_price_def b_def m_def Let_def)
  moreover have "0 < e * ((15 / 100) * (1 + c * (1 / 2)))"
    using assms by (simp add: add_pos_nonneg)
  then have "e < e * (1 + (15 / 100) * (1 + c * (1 / 2)))"
    by (simp add: distrib_left)
  ultimately show ?thesis by (simp add: calculate_take_profit_def Let_def)
qed

lemma step_changes_returns:
  "\<forall>p \<in> set xs. p \<noteq> 0 \<Longrightarrow> \<exists>qs. step_changes xs = Inr qs"
  by (induction xs rule: step_changes.induct) (auto simp: py_div_def and_then_def)

text \<open>On a history without a zero price the classifier returns a regime.\<close>

lemma detect_market_regime_returns:
  assumes "\<forall>p \<in> set ph. p \<noteq> 0"
  shows "\<exists>r. detect_market_regime ph = Inr r"
proof (cases "length ph < 12")
  case True
  then show ?thesis by (simp add: detect_market_regime_def)
next
  case False
  define recent where "recent = drop (length ph - 12) ph"
  have ne: "recent \<noteq> []" using False by (simp add: recent_def)
  have sub: "set recent \<subseteq> set ph" by (simp add: recent_def set_drop_subset)
  have "hd recent \<in> set recent" using ne by simp
  then have h: "hd recent \<noteq> 0" using sub assms by blast
  have "\<forall>p \<in> set recent. p \<noteq> 0" using sub assms by blast
  then obtain qs where q: "step_changes recent = Inr qs" using step_changes_returns by blast
  show ?thesis using False h q
    by (simp add: detect_market_regime_def Let_def and_then_def py_div_def recent_def [symmetric])
qed

text \<open>A window shorter than twelve samples is \<open>unknown\<close>.\<close>

lemma detect_market_regime_short:
  "length ph < 12 \<Longrightarrow> detect_market_regime ph = Inr unknown"
  by (simp add: detect_market_regime_def)

lemma sum_list_const: "\<forall>x \<in> set xs. x = p \<Longrightarrow> sum_list xs = real (length xs) * p"
  by (induction xs) (auto simp: algebra_simps)

lemma np_mean_const:
  assumes "xs \<noteq> []" and "\<forall>x \<in> set xs. x = p"
  shows "np_mean xs = p"
  using assms sum_list_const [OF assms(2)] by (simp add: np_mean_def)

lemma np_std_const:
  assumes "xs \<noteq> []" and "\<forall>x \<in> set xs. x = p"
  shows "np_std xs = 0"
proof -
  have m: "np_mean xs = p" using assms by (rule np_mean_const)
  have "map (\<lambda>x. (x - p)\<^sup>2) xs = map (\<lambda>x. 0) xs"
    using assms(2) by (intro map_cong) simp_all
  then have "np_mean (map (\<lambda>x. (x - p)\<^sup>2) xs) = 0"
    by (simp only: np_mean_def) simp
  then show ?thesis by (simp add: np_std_def m)
qed

lemma to_dicts_returns:
  "\<forall>s \<in> set signals. \<exists>d. f s = Inr d \<Longrightarrow> \<exists>ds. to_dicts f signals = Inr ds"
  by (induction signals) (auto simp: and_then_def)

section \<open>The claims\<close>

subsection \<open>C1: conservation of portfolio value\<close>




subsection \<open>C2: a single open position per symbol\<close>


subsection \<open>C3: the risk-manager queries return\<close>

text \<open>
  C3 at a failing input. The claim: \<open>assess_token_risk\<close>, \<open>calculate_position_size\<close>
  and \<open>can_open_position\<close> terminate and return a value. With the price feed down, for
  every depth of stack left: \<open>assess_token_risk\<close> and \<open>calculate_position_size\<close> call
  each other until the interpreter raises \<open>RecursionError\<close>, and \<open>can_open_position\<close>,
  once its four limits pass, raises with them.
\<close>

theorem risk_queries_recurse:
  "assess_token_risk depth rm offline_feed ''WETH'' = Inl RecursionError \<and>
   calculate_position_size depth rm offline_feed ''WETH'' c pv = Inl RecursionError \<and>
   can_open_position depth (RiskManager_init 40000) offline_feed ''WETH'' 1000 1
     = Inl RecursionError"
proof -
  have z: "get_current_price offline_feed ''WETH'' = 0"
    by (simp add: offline_feed_def)
  have b: "assess_token_risk depth (RiskManager_init 40000) offline_feed ''WETH''
             = Inl RecursionError"
    using risk_recursion [OF z] by simp
  have "can_open_position depth (RiskManager_init 40000) offline_feed ''WETH'' 1000 1
          = Inl RecursionError"
    unfolding can_open_position_def b by (simp add: RiskManager_init_def)
  then show ?thesis using risk_recursion [OF z, of depth rm] by simp
qed

subsection \<open>C4: consensus aggregation\<close>




subsection \<open>C5: stop below entry below take profit\<close>


subsection \<open>C6: the regime classifier\<close>


subsection \<open>C7: scenario A\<close>


subsection \<open>C8: the tuner after three losses in a row\<close>

text \<open>
  C8, as stated, fails. The claim: whenever the tuner runs with three or more
  consecutive losses it widens the stop loss. The tuner sets the stop loss to -4: run a
  second time, on parameters it has already widened, it leaves the stop loss at -4, no
  wider than before, and logs the entry all the same.
\<close>

theorem widening_counterexample:
  "stop_loss (optimal_params widened_once) = - 4 \<and>
   consecutive_losses three_losses = 3 \<and>
   adapt_strategy ''t'' widened_once three_losses =
     Inr ([WidenedStopLoss (- 4)],
          widened_once\<lparr>adaptation_history :=
            [\<lparr> timestamp = ''t'', changes = [WidenedStopLoss (- 4)],
               new_params = optimal_params widened_once \<rparr>]\<rparr>,
          three_losses\<lparr>consecutive_losses := 0\<rparr>)"
  by (simp add: adapt_strategy_def widened_once_def three_losses_def load_state_default_def
      load_learning_data_default_def detect_market_regime_def and_then_def Let_def)

text \<open>
  C8, amended: whenever the tuner runs with three or more consecutive losses, on a price
  history without a zero price, it returns; it sets the stop loss to -4, which widens it
  when it was tighter than -4 (as the default -3 is); it resets \<open>consecutive_losses\<close> to
  0; and it appends exactly one entry to the adaptation log, with the timestamp, the list
  of changes of that run (the widening among them) and the resulting parameters.
\<close>

theorem adapt_strategy_three_losses:
  assumes "consecutive_losses st \<ge> 3" and "\<forall>p \<in> set (hourly_prices st). p \<noteq> 0"
  shows "\<exists>adaptations ld' st' entry.
           adapt_strategy now ld st = Inr (adaptations, ld', st') \<and>
           stop_loss (optimal_params ld') = - 4 \<and>
           (- 4 < stop_loss (optimal_params ld) \<longrightarrow>
              stop_loss (optimal_params ld') < stop_loss (optimal_params ld)) \<and>
           consecutive_losses st' = 0 \<and>
           adaptation_history ld' = adaptation_history ld @ [entry] \<and>
           timestamp entry = now \<and>
           changes entry = adaptations \<and>
           WidenedStopLoss (stop_loss (optimal_params ld)) \<in> set adaptations \<and>
           new_params entry = optimal_params ld'"
proof -
  obtain r where r: "detect_market_regime (hourly_prices st) = Inr r"
    using detect_market_regime_returns [OF assms(2)] by blast
  show ?thesis
    using assms(1) r
    by (auto simp: adapt_strategy_def Let_def and_then_def split: prod.splits if_splits)
qed

theorem adapt_strategy_three_losses_witness:
  "3 \<le> consecutive_losses three_losses \<and>
   hourly_prices three_losses = [] \<and>
   (\<exists>adaptations ld' st' entry.
      adapt_strategy ''t'' load_learning_data_default three_losses
        = Inr (adaptations, ld', st') \<and>
      stop_loss (optimal_params ld') = - 4 \<and>
      stop_loss (optimal_params ld') < stop_loss (optimal_params load_learning_data_default) \<and>
      consecutive_losses st' = 0 \<and>
      adaptation_history ld' = adaptation_history load_learning_data_default @ [entry] \<and>
      timestamp entry = ''t'' \<and>
      changes entry = adaptations \<and>
      WidenedStopLoss (- 3) \<in> set adaptations \<and>
      new_params entry = optimal_params ld')"
proof -
  have h1: "3 \<le> consecutive_losses three_losses"
    by (simp add: three_losses_def load_state_default_def)
  have h2: "\<forall>p \<in> set (hourly_prices three_losses). p \<noteq> 0"
    by (simp add: three_losses_def load_state_default_def)
  have d: "stop_loss (optimal_params load_learning_data_default) = - 3"
    by (simp add: load_learning_data_default_def)
  have h3: "hourly_prices three_losses = []"
    by (simp add: three_losses_def load_state_default_def)
  show ?thesis
    using h1 h3 adapt_strategy_three_losses [OF h1 h2, of "''t''" load_learning_data_default]
    by (simp add: d)
qed

subsection \<open>C9: no balance below zero\<close>

text \<open>
  C9 at a failing input. The claim: no sequence of buys, sells and swaps drives a
  balance of the wallet, the ETH balance in particular, below zero. \<open>transfer\<close> checks
  the balance of the token given up and then charges the gas to \<open>ETH\<close> without a check:
  from a wallet of 0 ETH and 10000 USDC, one swap of 100 USDC to DAI succeeds and
  leaves -0.01 ETH.
\<close>

theorem gas_drives_eth_negative:
  "get_balance (wallet (PaperTrader_init 0 10000)) ''ETH'' = 0 \<and>
   success (projr (snd (execute_swap ''t0'' live_feed (PaperTrader_init 0 10000)
                          ''USDC'' ''DAI'' 100))) \<and>
   get_balance (wallet (fst (execute_swap ''t0'' live_feed (PaperTrader_init 0 10000)
                               ''USDC'' ''DAI'' 100))) ''ETH'' = - (1 / 100)"
  by (simp add: execute_swap_def live_feed_def PaperTrader_init_def wallet_eval)

subsection \<open>C10: mean reversion on a constant window\<close>



end
